theory Spec2Isabelle
  imports Complex_Main "HOL-Library.Sublist"
begin

section \<open>JavaScript strings and the string operations the plugin uses\<close>

text \<open>
  A JavaScript string is a sequence of UTF-16 code units. The model uses \<^typ>\<open>string\<close> and
  reads each \<^typ>\<open>char\<close> as a code unit below 256, so it covers the strings whose code units
  are all below 256. Every character the plugin's patterns name is ASCII.

  A value that may be \<^verbatim>\<open>undefined\<close> (a settings field that was never stored, a JSON
  member that is absent) is a \<^typ>\<open>string option\<close>, \<^term>\<open>None\<close> being \<^verbatim>\<open>undefined\<close>.
\<close>

type_synonym jsstr = "string option"

text \<open>\<^verbatim>\<open>!x\<close> is false exactly for a non-empty string.\<close>

definition truthy :: "jsstr \<Rightarrow> bool" where
  "truthy x = (case x of None \<Rightarrow> False | Some s \<Rightarrow> s \<noteq> [])"

text \<open>\<^verbatim>\<open>${x}\<close> inside a template literal.\<close>

definition interp :: "jsstr \<Rightarrow> string" where
  "interp x = (case x of None \<Rightarrow> ''undefined'' | Some s \<Rightarrow> s)"

text \<open>\<^verbatim>\<open>x || d\<close> for a string \<^verbatim>\<open>x\<close> and a non-empty default \<^verbatim>\<open>d\<close>.\<close>

definition or_else :: "jsstr \<Rightarrow> string \<Rightarrow> string" where
  "or_else x d = (case x of None \<Rightarrow> d | Some s \<Rightarrow> if s \<noteq> [] then s else d)"

text \<open>
  The characters matched by \<^verbatim>\<open>\s\<close> and removed by \<^verbatim>\<open>trim()\<close> (WhiteSpace and
  LineTerminator of ECMAScript) that lie below 256: TAB, LF, VT, FF, CR, SP and NBSP.
\<close>

definition js_space :: "char \<Rightarrow> bool" where
  "js_space c = (c \<in> set [CHR 0x09, CHR 0x0A, CHR 0x0B, CHR 0x0C, CHR 0x0D, CHR 0x20, CHR 0xA0])"

definition trim :: "string \<Rightarrow> string" where
  "trim s = rev (dropWhile js_space (rev (dropWhile js_space s)))"

text \<open>
  \<^verbatim>\<open>s.replace(re, rep)\<close> for a regular expression with the \<^verbatim>\<open>g\<close> flag and a
  replacement text without \<^verbatim>\<open>$\<close>: the string is scanned from the left; where the
  expression matches at the current position the match is replaced and the scan goes on
  behind it, otherwise the character is kept. A matcher gives the length of the match at the
  head of its argument. None of the plugin's expressions matches the empty string; a matcher
  that answered \<^term>\<open>0::nat\<close> is treated as not matching.
\<close>

fun gsub :: "(string \<Rightarrow> nat option) \<Rightarrow> string \<Rightarrow> string \<Rightarrow> string" where
  "gsub m rep [] = []"
| "gsub m rep (c # cs) =
     (case m (c # cs) of
        None \<Rightarrow> c # gsub m rep cs
      | Some n \<Rightarrow> if n = 0 then c # gsub m rep cs else rep @ gsub m rep (drop n (c # cs)))"

text \<open>A literal pattern such as \<^verbatim>\<open>/&amp;/\<close>.\<close>

definition match_lit :: "string \<Rightarrow> string \<Rightarrow> nat option" where
  "match_lit pat s = (if pat \<noteq> [] \<and> prefix pat s then Some (length pat) else None)"

text \<open>A character class such as \<^verbatim>\<open>/[\\/:*?"<>|]/\<close>.\<close>

definition match_class :: "char list \<Rightarrow> string \<Rightarrow> nat option" where
  "match_class cls s = (case s of [] \<Rightarrow> None | c # _ \<Rightarrow> if c \<in> set cls then Some 1 else None)"

text \<open>
  \<^verbatim>\<open>/<br\s*\/?>/gi\<close>: \<^verbatim>\<open><\<close>, \<^verbatim>\<open>b\<close> and \<^verbatim>\<open>r\<close> in either case, any
  white space, an optional slash, \<^verbatim>\<open>>\<close>. Neither the slash nor \<^verbatim>\<open>>\<close> is white
  space, so backtracking finds nothing the greedy reading misses.
\<close>

definition match_br :: "string \<Rightarrow> nat option" where
  "match_br s =
     (case s of
        c1 # c2 # c3 # rest \<Rightarrow>
          if c1 = CHR ''<'' \<and> (c2 = CHR ''b'' \<or> c2 = CHR ''B'') \<and> (c3 = CHR ''r'' \<or> c3 = CHR ''R'') then
            (let ws = takeWhile js_space rest;
                 r1 = dropWhile js_space rest;
                 slash = (case r1 of c # _ \<Rightarrow> if c = CHR ''/'' then 1 else 0 | [] \<Rightarrow> 0);
                 r2 = drop slash r1
             in case r2 of
                  c # _ \<Rightarrow> if c = CHR ''>'' then Some (3 + length ws + slash + 1) else None
                | [] \<Rightarrow> None)
          else None
      | _ \<Rightarrow> None)"

text \<open>
  \<^verbatim>\<open>/<\/?[^>]+(>|$)/g\<close>: \<^verbatim>\<open><\<close>, then one or more characters other than
  \<^verbatim>\<open>>\<close> (a slash is one of them, so the optional slash adds no match), then
  \<^verbatim>\<open>>\<close> or the end of the string. The greedy run always ends before \<^verbatim>\<open>>\<close> or at the
  end, so the match is the whole run, with the closing \<^verbatim>\<open>>\<close> when there is one.
\<close>

definition match_tag :: "string \<Rightarrow> nat option" where
  "match_tag s =
     (case s of
        [] \<Rightarrow> None
      | c # rest \<Rightarrow>
          if c = CHR ''<'' then
            (let run = takeWhile (\<lambda>x. x \<noteq> CHR ''>'') rest
             in if run = [] then None
                else Some (1 + length run + (if length run < length rest then 1 else 0)))
          else None)"

text \<open>
  \<^verbatim>\<open>s.replace(pat, rep)\<close> for a string pattern: only the first occurrence is replaced.
\<close>

fun replace_first :: "string \<Rightarrow> string \<Rightarrow> string \<Rightarrow> string" where
  "replace_first pat rep [] = (if pat = [] then rep else [])"
| "replace_first pat rep (c # cs) =
     (if prefix pat (c # cs) then rep @ drop (length pat) (c # cs)
      else c # replace_first pat rep cs)"

text \<open>\<^verbatim>\<open>xs.join(sep)\<close>.\<close>

fun join :: "string \<Rightarrow> string list \<Rightarrow> string" where
  "join sep [] = []"
| "join sep [x] = x"
| "join sep (x # y # ys) = x @ sep @ join sep (y # ys)"

text \<open>A non-negative integer inside a template literal: its decimal digits.\<close>

fun show_nat :: "nat \<Rightarrow> string" where
  "show_nat n =
     (if n < 10 then [''0123456789'' ! n]
      else show_nat (n div 10) @ [''0123456789'' ! (n mod 10)])"

declare show_nat.simps [simp del]

section \<open>The hand-rolled converter of the earlier revisions\<close>

text \<open>
  \<^verbatim>\<open>htmlToMarkdown\<close>: line breaks, tag stripping, four entities in the order
  \<^verbatim>\<open>&nbsp;\<close>, \<^verbatim>\<open>&amp;\<close>, \<^verbatim>\<open>&lt;\<close>, \<^verbatim>\<open>&gt;\<close>, then \<^verbatim>\<open>trim()\<close>.
\<close>

definition htmlToMarkdown :: "string \<Rightarrow> string" where
  "htmlToMarkdown html =
     trim
       (gsub (match_lit ''&gt;'') ''>''
         (gsub (match_lit ''&lt;'') ''<''
           (gsub (match_lit ''&amp;'') ''&''
             (gsub (match_lit ''&nbsp;'') '' ''
               (gsub match_tag ''''
                 (gsub match_br [CHR 0x0A] html))))))"

section \<open>Articles and their notes\<close>

text \<open>
  An article as the entries endpoint delivers it. \<^verbatim>\<open>content\<close> and \<^verbatim>\<open>tags\<close> may be
  absent or null, which is what the source guards against with \<^verbatim>\<open>?:\<close> and \<^verbatim>\<open>||\<close>.
\<close>

record tag =
  label :: string

record article =
  art_id :: nat
  title :: string
  url :: string
  created_at :: string
  content :: jsstr
  tags :: "tag list option"

text \<open>
  \<^verbatim>\<open>articleToMarkdown\<close>. The converter applied to the body is a parameter:
  \<^verbatim>\<open>this.turndownService.turndown\<close> in \<^verbatim>\<open>main.ts\<close>, \<^verbatim>\<open>this.htmlToMarkdown\<close> in
  the earlier revisions.
\<close>

definition tags_line :: "article \<Rightarrow> string" where
  "tags_line a =
     join '', ''
       (map (\<lambda>t. replace_first '' '' ''-'' (label t))
            (case tags a of None \<Rightarrow> [] | Some ts \<Rightarrow> ts))"

definition articleToMarkdown :: "(string \<Rightarrow> string) \<Rightarrow> article \<Rightarrow> string" where
  "articleToMarkdown conv a =
     ''---'' @ [CHR 0x0A] @
     ''url: '' @ url a @ [CHR 0x0A] @
     ''tags: '' @ tags_line a @ [CHR 0x0A] @
     ''created_at: '' @ created_at a @ [CHR 0x0A] @
     ''wallabag id: '' @ show_nat (art_id a) @ [CHR 0x0A] @
     ''---'' @ [CHR 0x0A] @
     [CHR 0x0A] @
     ''# '' @ title a @ [CHR 0x0A] @
     [CHR 0x0A] @
     (if truthy (content a) then conv (interp (content a)) else []) @ [CHR 0x0A]"

text \<open>The nine characters of the class \<^verbatim>\<open>[\\/:*?"<>|]\<close>.\<close>

definition unsafe_chars :: "char list" where
  "unsafe_chars =
     [CHR 0x5C, CHR ''/'', CHR '':'', CHR ''*'', CHR ''?'', CHR 0x22, CHR ''<'', CHR ''>'', CHR ''|'']"

definition sanitizedTitle :: "article \<Rightarrow> string" where
  "sanitizedTitle a = gsub (match_class unsafe_chars) ''-'' (title a)"

definition fileName :: "article \<Rightarrow> string" where
  "fileName a = sanitizedTitle a @ ''.md''"

definition filePath :: "article \<Rightarrow> string \<Rightarrow> string" where
  "filePath a folder = folder @ ''/'' @ fileName a"

section \<open>Settings, the world the plugin runs in, and its environment\<close>

record settings =
  noteFolder :: jsstr
  instanceUrl :: jsstr
  clientId :: jsstr
  clientSecret :: jsstr
  username :: jsstr
  password :: jsstr
  onlyStarred :: bool
  accessToken :: jsstr
  refreshToken :: jsstr
  tokenExpiry :: int
  since :: rat

text \<open>
  \<^verbatim>\<open>tokenExpiry\<close> is in milliseconds, \<^verbatim>\<open>since\<close> in seconds: the source stores
  \<^verbatim>\<open>Date.now() / 1000\<close>, a number with up to three decimals, here the exact rational.
\<close>

datatype error = Error string | NetworkError | SyntaxError

text \<open>
  What \<^verbatim>\<open>fetch\<close> gives back: the promise rejects, or there is a response with its
  \<^verbatim>\<open>ok\<close> flag, its text and, when the text parses, its JSON value.
\<close>

datatype 'a response = Rejected | Response bool string "'a option"

record token_request =
  post_url :: string
  grant_type :: string
  client_id :: string
  client_secret :: string
  req_username :: string
  req_password :: string

record token_data =
  access_token :: jsstr
  refresh_token :: jsstr
  expires_in :: int

text \<open>
  The request of one page. The URL
  \<^verbatim>\<open>${instanceUrl}/api/entries.json?since=${since}&page=${page}&perPage=30\<close>, with
  \<^verbatim>\<open>&starred=1\<close> appended when only starred articles are wanted, is kept as its parts.
\<close>

record entries_request =
  get_url :: string
  q_since :: rat
  q_page :: nat
  q_perPage :: nat
  q_starred :: "nat option"
  authorization :: string

record entries_data =
  embedded_items :: "article list option"
  links_next :: bool

datatype event =
    Notice string
  | HttpPost token_request
  | HttpGet entries_request
  | ConsoleError error

datatype vfile = TFile string | TFolder

text \<open>
  The world: the settings object in memory, the settings last written by
  \<^verbatim>\<open>saveData\<close>, the vault as a map from paths to files and folders, the number of
  \<^verbatim>\<open>Date.now()\<close> readings so far, and everything the plugin has shown or sent.
\<close>

record world =
  settings :: settings
  saved :: settings
  vault :: "string \<rightharpoonup> vfile"
  ticks :: nat
  events :: "event list"

text \<open>
  The environment: the clock (the value of the n-th reading), the two endpoints and the
  Turndown converter. Within one run no request is sent twice (there is at most one POST, and
  the page number differs between any two GETs), so a server whose answer depends on the
  request alone is as general as one with state.
\<close>

record env =
  clock :: "nat \<Rightarrow> int"
  token_endpoint :: "token_request \<Rightarrow> token_data response"
  entries_endpoint :: "entries_request \<Rightarrow> entries_data response"
  turndown :: "string \<Rightarrow> string"

definition emit :: "event \<Rightarrow> world \<Rightarrow> world" where
  "emit e w = w\<lparr>events := events w @ [e]\<rparr>"

definition date_now :: "env \<Rightarrow> world \<Rightarrow> int \<times> world" where
  "date_now en w = (clock en (ticks w), w\<lparr>ticks := Suc (ticks w)\<rparr>)"

text \<open>
  \<^verbatim>\<open>saveSettings\<close> writes the whole settings object; \<^verbatim>\<open>saveData\<close> is taken to
  succeed.
\<close>

definition saveSettings :: "world \<Rightarrow> world" where
  "saveSettings w = w\<lparr>saved := settings w\<rparr>"

section \<open>Authentication\<close>

text \<open>
  A function that can throw returns \<^term>\<open>Inl\<close> of the error, paired with the world as the
  throw left it.
\<close>

definition authenticate :: "env \<Rightarrow> world \<Rightarrow> (error + unit) \<times> world" where
  "authenticate en w =
     (let s = settings w in
      if \<not> truthy (instanceUrl s) \<or> \<not> truthy (clientId s) \<or> \<not> truthy (clientSecret s)
         \<or> \<not> truthy (username s) \<or> \<not> truthy (password s)
      then (Inl (Error ''Missing credentials''),
            emit (Notice ''Please fill in all Wallabag credentials in the settings.'') w)
      else
        let w1 = emit (Notice ''Authenticating with Wallabag...'') w;
            req = \<lparr>post_url = interp (instanceUrl s) @ ''/oauth/v2/token'',
                   grant_type = ''password'',
                   client_id = interp (clientId s),
                   client_secret = interp (clientSecret s),
                   req_username = interp (username s),
                   req_password = interp (password s)\<rparr>;
            w2 = emit (HttpPost req) w1
        in case token_endpoint en req of
             Rejected \<Rightarrow> (Inl NetworkError, w2)
           | Response ok txt json \<Rightarrow>
               if \<not> ok
               then (Inl (Error txt), emit (Notice ''Failed to authenticate with Wallabag.'') w2)
               else
                 (case json of
                    None \<Rightarrow> (Inl SyntaxError, w2)
                  | Some data \<Rightarrow>
                      let (now, w3) = date_now en w2;
                          w4 = w3\<lparr>settings := (settings w3)
                                 \<lparr>accessToken := access_token data,
                                  refreshToken := refresh_token data,
                                  tokenExpiry := now + expires_in data * 1000\<rparr>\<rparr>
                      in (Inr (), saveSettings w4)))"

text \<open>
  \<^verbatim>\<open>ensureTokenValid\<close>: \<^verbatim>\<open>||\<close> reads the clock only when a token is held.
\<close>

definition ensureTokenValid :: "env \<Rightarrow> world \<Rightarrow> (error + unit) \<times> world" where
  "ensureTokenValid en w =
     (if \<not> truthy (accessToken (settings w)) then authenticate en w
      else
        let (now, w1) = date_now en w
        in if now > tokenExpiry (settings w1) - 60 * 1000 then authenticate en w1
           else (Inr (), w1))"

section \<open>Fetching\<close>

definition page_request :: "jsstr \<Rightarrow> jsstr \<Rightarrow> rat \<Rightarrow> nat \<Rightarrow> bool \<Rightarrow> entries_request" where
  "page_request iu tok sn page starred =
     \<lparr>get_url = interp iu @ ''/api/entries.json'',
      q_since = sn,
      q_page = page,
      q_perPage = 30,
      q_starred = (if starred then Some 1 else None),
      authorization = ''Bearer '' @ interp tok\<rparr>"

definition items_of :: "entries_data \<Rightarrow> article list" where
  "items_of data = (case embedded_items data of None \<Rightarrow> [] | Some xs \<Rightarrow> xs)"

text \<open>
  The \<^verbatim>\<open>while (hasMore)\<close> loop of \<^verbatim>\<open>fetchArticles\<close>. A server that
  always sends a next link keeps it running, so the loop takes fuel, one unit per page; the
  result \<^term>\<open>None\<close> means that the fuel ran out, and the world is the one reached by then.
  \<^verbatim>\<open>instanceUrl\<close>, \<^verbatim>\<open>accessToken\<close> and \<^verbatim>\<open>since\<close> are the constants
  destructured before the loop; \<^verbatim>\<open>onlyStarred\<close> is read from the settings in each round.
\<close>

fun fetch_loop ::
  "nat \<Rightarrow> env \<Rightarrow> jsstr \<Rightarrow> jsstr \<Rightarrow> rat \<Rightarrow> article list \<Rightarrow> nat \<Rightarrow> world
     \<Rightarrow> (error + article list) option \<times> world" where
  "fetch_loop 0 en iu tok sn articles page w = (None, w)"
| "fetch_loop (Suc fuel) en iu tok sn articles page w =
     (let req = page_request iu tok sn page (onlyStarred (settings w));
          w1 = emit (HttpGet req) w
      in case entries_endpoint en req of
           Rejected \<Rightarrow> (Some (Inl NetworkError), w1)
         | Response ok txt json \<Rightarrow>
             if \<not> ok then (Some (Inl (Error (''Failed to fetch articles: '' @ txt))), w1)
             else
               (case json of
                  None \<Rightarrow> (Some (Inl SyntaxError), w1)
                | Some data \<Rightarrow>
                    let articles' = articles @ items_of data
                    in if links_next data
                       then fetch_loop fuel en iu tok sn articles' (page + 1) w1
                       else (Some (Inr articles'), w1)))"

definition fetchArticles :: "nat \<Rightarrow> env \<Rightarrow> world \<Rightarrow> (error + article list) option \<times> world" where
  "fetchArticles fuel en w =
     (let iu = instanceUrl (settings w);
          tok = accessToken (settings w);
          sn = since (settings w);
          (now, w1) = date_now en w;
          newSince = of_int now / 1000;
          w2 = emit (Notice ''Fetching Wallabag articles...'') w1
      in case fetch_loop fuel en iu tok sn [] 1 w2 of
           (None, w3) \<Rightarrow> (None, w3)
         | (Some (Inl e), w3) \<Rightarrow> (Some (Inl e), w3)
         | (Some (Inr articles), w3) \<Rightarrow>
             (Some (Inr articles),
              saveSettings (w3\<lparr>settings := (settings w3)\<lparr>since := newSince\<rparr>\<rparr>)))"

section \<open>Writing the notes\<close>

text \<open>
  The vault operations the plugin calls. \<^verbatim>\<open>vault.create\<close> throws when the path is
  taken; \<^verbatim>\<open>vault.modify\<close> overwrites the file it is given.
\<close>

definition vault_create :: "string \<Rightarrow> string \<Rightarrow> world \<Rightarrow> (error + unit) \<times> world" where
  "vault_create path data w =
     (if vault w path \<noteq> None then (Inl (Error ''File already exists.''), w)
      else (Inr (), w\<lparr>vault := (vault w)(path \<mapsto> TFile data)\<rparr>))"

definition vault_modify :: "string \<Rightarrow> string \<Rightarrow> world \<Rightarrow> (error + unit) \<times> world" where
  "vault_modify path data w = (Inr (), w\<lparr>vault := (vault w)(path \<mapsto> TFile data)\<rparr>)"

definition createOrUpdateArticleNote ::
  "env \<Rightarrow> article \<Rightarrow> string \<Rightarrow> world \<Rightarrow> (error + unit) \<times> world" where
  "createOrUpdateArticleNote en a folder w =
     (let noteContent = articleToMarkdown (turndown en) a;
          existing = vault w (filePath a folder)
      in case existing of
           Some (TFile old) \<Rightarrow> vault_modify (filePath a folder) noteContent w
         | _ \<Rightarrow> vault_create (filePath a folder) noteContent w)"

text \<open>
  \<^verbatim>\<open>ensureFolderExists\<close>: the folder is made when nothing is at its path;
  \<^verbatim>\<open>mkdir\<close> is taken to succeed.
\<close>

definition ensureFolderExists :: "string \<Rightarrow> world \<Rightarrow> world" where
  "ensureFolderExists folder w =
     (if vault w folder = None then w\<lparr>vault := (vault w)(folder \<mapsto> TFolder)\<rparr> else w)"

text \<open>The \<^verbatim>\<open>for (const article of articles)\<close> loop: the first throw ends it.\<close>

fun write_all :: "env \<Rightarrow> article list \<Rightarrow> string \<Rightarrow> world \<Rightarrow> (error + unit) \<times> world" where
  "write_all en [] folder w = (Inr (), w)"
| "write_all en (a # as) folder w =
     (case createOrUpdateArticleNote en a folder w of
        (Inl e, w1) \<Rightarrow> (Inl e, w1)
      | (Inr u, w1) \<Rightarrow> write_all en as folder w1)"

section \<open>One sync run\<close>

text \<open>The body of the \<^verbatim>\<open>try\<close> block of \<^verbatim>\<open>syncWallabagArticles\<close>.\<close>

definition sync_try :: "nat \<Rightarrow> env \<Rightarrow> world \<Rightarrow> (error + unit) option \<times> world" where
  "sync_try fuel en w =
     (case ensureTokenValid en w of
        (Inl e, w1) \<Rightarrow> (Some (Inl e), w1)
      | (Inr u, w1) \<Rightarrow>
          (case fetchArticles fuel en w1 of
             (None, w2) \<Rightarrow> (None, w2)
           | (Some (Inl e), w2) \<Rightarrow> (Some (Inl e), w2)
           | (Some (Inr articles), w2) \<Rightarrow>
               let folderPath = or_else (noteFolder (settings w2)) ''Wallabag'';
                   w3 = ensureFolderExists folderPath w2
               in case write_all en articles folderPath w3 of
                    (Inl e, w4) \<Rightarrow> (Some (Inl e), w4)
                  | (Inr u, w4) \<Rightarrow>
                      (Some (Inr ()),
                       emit (Notice (''Synced '' @ show_nat (length articles)
                                      @ '' Wallabag articles.'')) w4)))"

text \<open>
  \<^verbatim>\<open>syncWallabagArticles\<close>: the \<^verbatim>\<open>catch\<close> logs the error and shows one notice.
  The result is \<^term>\<open>Some ()\<close> when the run has ended, \<^term>\<open>None\<close> when the fuel ran out.
\<close>

definition syncWallabagArticles :: "nat \<Rightarrow> env \<Rightarrow> world \<Rightarrow> unit option \<times> world" where
  "syncWallabagArticles fuel en w =
     (case sync_try fuel en w of
        (None, w1) \<Rightarrow> (None, w1)
      | (Some (Inl e), w1) \<Rightarrow>
          (Some (), emit (Notice ''Sync failed. See console for details.'') (emit (ConsoleError e) w1))
      | (Some (Inr u), w1) \<Rightarrow> (Some (), w1))"

text \<open>What a run has added to the record of events.\<close>

definition new_events :: "world \<Rightarrow> world \<Rightarrow> event list" where
  "new_events w w' = drop (length (events w)) (events w')"

section \<open>Notions used to state the properties\<close>

text \<open>The world in which the loop of \<^verbatim>\<open>fetchArticles\<close> starts.\<close>

definition fetch_start :: "env \<Rightarrow> world \<Rightarrow> world" where
  "fetch_start en w = emit (Notice ''Fetching Wallabag articles...'') (snd (date_now en w))"




text \<open>The first notice of \<^verbatim>\<open>authenticate\<close>, on either of its paths.\<close>

definition auth_notice :: "event \<Rightarrow> bool" where
  "auth_notice e = (e = Notice ''Please fill in all Wallabag credentials in the settings.''
                    \<or> e = Notice ''Authenticating with Wallabag...'')"

section \<open>Sample data\<close>

definition sample_article :: article where
  "sample_article =
     \<lparr>art_id = 42, title = ''A/B? Test'', url = ''https://example.org/post'',
      created_at = ''2024-05-01T10:00:00+0000'', content = Some ''<p>1 &amp;lt; 2</p>'',
      tags = Some [\<lparr>label = ''to read later''\<rparr>, \<lparr>label = ''tech''\<rparr>]\<rparr>"

definition sample_settings :: settings where
  "sample_settings =
     \<lparr>noteFolder = Some ''Wallabag'', instanceUrl = Some ''https://app.wallabag.it'',
      clientId = Some ''id'', clientSecret = Some ''secret'', username = Some ''user'',
      password = Some ''pw'', onlyStarred = True, accessToken = Some ''tok'',
      refreshToken = Some ''ref'', tokenExpiry = 1120000, since = 0\<rparr>"

definition sample_world :: world where
  "sample_world =
     \<lparr>settings = sample_settings, saved = sample_settings, vault = Map.empty, ticks = 0,
      events = []\<rparr>"


text \<open>A token is held and expires exactly 60 s after the clock of the sample servers.\<close>

definition boundary_world :: world where
  "boundary_world =
     sample_world\<lparr>settings := sample_settings\<lparr>tokenExpiry := 1060000\<rparr>,
                   saved := sample_settings\<lparr>tokenExpiry := 1060000\<rparr>\<rparr>"

text \<open>
  The token has expired, and the watermark in memory (7) is not the persisted one (5).
\<close>

definition stale_world :: world where
  "stale_world =
     sample_world\<lparr>settings := sample_settings\<lparr>tokenExpiry := 0, since := 7\<rparr>,
                   saved := sample_settings\<lparr>tokenExpiry := 0, since := 5\<rparr>\<rparr>"

text \<open>Settings in which the password was cleared.\<close>

definition no_password_world :: world where
  "no_password_world =
     sample_world\<lparr>settings := sample_settings\<lparr>password := Some []\<rparr>\<rparr>"

definition sample_token :: token_data where
  "sample_token =
     \<lparr>access_token = Some ''tok2'', refresh_token = Some ''ref2'', expires_in = 3600\<rparr>"

text \<open>
  A server with a single page of one article; the clock stands at 1000 s, 120 s before
  the sample token expires.
\<close>

definition one_page_env :: env where
  "one_page_env =
     \<lparr>clock = (\<lambda>n. 1000000),
      token_endpoint = (\<lambda>rq. Response True [] (Some sample_token)),
      entries_endpoint =
        (\<lambda>rq. Response True []
           (Some \<lparr>embedded_items = Some [sample_article], links_next = False\<rparr>)),
      turndown = htmlToMarkdown\<rparr>"

text \<open>A server that delivers page 1 with a next link and answers page 2 with an error.\<close>

definition failing_env :: env where
  "failing_env =
     \<lparr>clock = (\<lambda>n. 1000000),
      token_endpoint = (\<lambda>rq. Response True [] (Some sample_token)),
      entries_endpoint =
        (\<lambda>rq. if q_page rq = 1
              then Response True []
                     (Some \<lparr>embedded_items = Some [sample_article], links_next = True\<rparr>)
              else Response False ''Internal Server Error'' None),
      turndown = htmlToMarkdown\<rparr>"

section \<open>Facts about the string operations\<close>













section \<open>What each operation leaves alone, and what it records\<close>

lemma new_events_append: "events w' = events w @ evs \<Longrightarrow> new_events w w' = evs"
  by (simp add: new_events_def)

lemma emit_simps [simp]:
  "settings (emit e w) = settings w" "saved (emit e w) = saved w" "vault (emit e w) = vault w"
  "ticks (emit e w) = ticks w" "events (emit e w) = events w @ [e]"
  by (simp_all add: emit_def)

lemma saveSettings_simps [simp]:
  "settings (saveSettings w) = settings w" "saved (saveSettings w) = settings w"
  "vault (saveSettings w) = vault w" "ticks (saveSettings w) = ticks w"
  "events (saveSettings w) = events w"
  by (simp_all add: saveSettings_def)

lemma date_now_simps [simp]:
  "fst (date_now en w) = clock en (ticks w)"
  "settings (snd (date_now en w)) = settings w" "saved (snd (date_now en w)) = saved w"
  "vault (snd (date_now en w)) = vault w" "ticks (snd (date_now en w)) = Suc (ticks w)"
  "events (snd (date_now en w)) = events w"
  by (simp_all add: date_now_def)

lemma authenticate_frame:
  "vault (snd (authenticate en w)) = vault w"
  "since (settings (snd (authenticate en w))) = since (settings w)"
  "since (saved (snd (authenticate en w))) = since (saved w)
     \<or> since (saved (snd (authenticate en w))) = since (settings w)"
  by (auto simp: authenticate_def Let_def split_beta split: response.splits option.splits)

lemma authenticate_events:
  "\<exists>evs. events (snd (authenticate en w)) = events w @ evs \<and> evs \<noteq> []
     \<and> (\<forall>req. HttpGet req \<notin> set evs)
     \<and> (Notice ''Please fill in all Wallabag credentials in the settings.'' \<in> set evs
          \<or> Notice ''Authenticating with Wallabag...'' \<in> set evs)"
  by (auto simp: authenticate_def Let_def split_beta split: response.splits option.splits)

lemma ensureTokenValid_cases:
  "ensureTokenValid en w =
     (if \<not> truthy (accessToken (settings w)) then authenticate en w
      else if tokenExpiry (settings w) - clock en (ticks w) < 60000
           then authenticate en (snd (date_now en w))
           else (Inr (), snd (date_now en w)))"
  by (auto simp: ensureTokenValid_def split_beta date_now_def)

lemma ensureTokenValid_frame:
  "vault (snd (ensureTokenValid en w)) = vault w"
  "since (settings (snd (ensureTokenValid en w))) = since (settings w)"
  "since (saved (snd (ensureTokenValid en w))) = since (saved w)
     \<or> since (saved (snd (ensureTokenValid en w))) = since (settings w)"
  using authenticate_frame [of en w] authenticate_frame [of en "snd (date_now en w)"]
  by (auto simp: ensureTokenValid_cases)

lemma ensureTokenValid_events:
  "\<exists>evs. events (snd (ensureTokenValid en w)) = events w @ evs
     \<and> (\<forall>req. HttpGet req \<notin> set evs)"
  using authenticate_events [of en w] authenticate_events [of en "snd (date_now en w)"]
  by (auto simp: ensureTokenValid_cases)

lemma fetch_loop_frame:
  "fetch_loop fuel en iu tok sn acc page w = (r, w') \<Longrightarrow>
     settings w' = settings w \<and> saved w' = saved w \<and> vault w' = vault w \<and> ticks w' = ticks w"
proof (induction fuel arbitrary: acc page w)
  case 0
  then show ?case by simp
next
  case (Suc fuel)
  then show ?case
    by (fastforce simp: Let_def split: response.splits option.splits if_splits)
qed

text \<open>The loop records one request per round, for consecutive pages.\<close>

lemma fetch_loop_events:
  "fetch_loop fuel en iu tok sn acc page w = (r, w') \<Longrightarrow>
     \<exists>n\<le>fuel. events w' = events w @
        map (\<lambda>p. HttpGet (page_request iu tok sn p (onlyStarred (settings w)))) [page..<page + n]"
proof (induction fuel arbitrary: acc page w)
  case 0
  then show ?case by simp
next
  case (Suc fuel)
  let ?req = "page_request iu tok sn page (onlyStarred (settings w))"
  let ?w1 = "emit (HttpGet ?req) w"
  have one: "events ?w1 = events w @
        map (\<lambda>p. HttpGet (page_request iu tok sn p (onlyStarred (settings w)))) [page..<page + 1]"
    by simp
  show ?case
  proof (cases "\<exists>t data. entries_endpoint en ?req = Response True t (Some data) \<and> links_next data")
    case True
    then obtain t data where
      "entries_endpoint en ?req = Response True t (Some data)" "links_next data" by blast
    with Suc.prems
    have "fetch_loop fuel en iu tok sn (acc @ items_of data) (page + 1) ?w1 = (r, w')"
      by (simp add: Let_def)
    from Suc.IH [OF this] obtain n where n: "n \<le> fuel"
      "events w' = events ?w1 @
         map (\<lambda>p. HttpGet (page_request iu tok sn p (onlyStarred (settings w))))
             [page + 1..<page + 1 + n]"
      by auto
    have "[page..<page + Suc n] = page # [page + 1..<page + 1 + n]"
      by (simp add: upt_conv_Cons)
    with n show ?thesis by (intro exI [of _ "Suc n"]) simp
  next
    case False
    with Suc.prems have "w' = ?w1"
      by (auto simp: Let_def split: response.splits option.splits if_splits)
    with one show ?thesis by (intro exI [of _ 1]) simp
  qed
qed

text \<open>A response that is not ok ends the loop with the error made from its text.\<close>

lemma fetch_loop_bad:
  "fetch_loop fuel en iu tok sn acc page w = (r, w') \<Longrightarrow>
   HttpGet req \<in> set (new_events w w') \<Longrightarrow>
   entries_endpoint en req = Response False tx json \<Longrightarrow>
   r = Some (Inl (Error (''Failed to fetch articles: '' @ tx)))"
proof (induction fuel arbitrary: acc page w)
  case 0
  then show ?case by (simp add: new_events_def)
next
  case (Suc fuel)
  let ?req = "page_request iu tok sn page (onlyStarred (settings w))"
  let ?w1 = "emit (HttpGet ?req) w"
  show ?case
  proof (cases "\<exists>t data. entries_endpoint en ?req = Response True t (Some data) \<and> links_next data")
    case True
    then obtain t data where
      ok: "entries_endpoint en ?req = Response True t (Some data)" "links_next data" by blast
    with Suc.prems(1)
    have rest: "fetch_loop fuel en iu tok sn (acc @ items_of data) (page + 1) ?w1 = (r, w')"
      by (simp add: Let_def)
    from fetch_loop_events [OF rest] obtain evs where evs: "events w' = events ?w1 @ evs"
      by blast
    then have "new_events w w' = HttpGet ?req # new_events ?w1 w'"
      by (simp add: new_events_def)
    with Suc.prems(2) have "req = ?req \<or> HttpGet req \<in> set (new_events ?w1 w')" by auto
    moreover from ok Suc.prems(3) have "req \<noteq> ?req" by auto
    ultimately have "HttpGet req \<in> set (new_events ?w1 w')" by simp
    from Suc.IH [OF rest this Suc.prems(3)] show ?thesis .
  next
    case False
    with Suc.prems(1) have w': "w' = ?w1"
      by (auto simp: Let_def split: response.splits option.splits if_splits)
    then have "new_events w w' = [HttpGet ?req]" by (simp add: new_events_def)
    with Suc.prems(2) have "req = ?req" by simp
    with Suc.prems(1,3) show ?thesis by (simp add: Let_def)
  qed
qed

lemma fetchArticles_loop:
  assumes "fetch_loop fuel en (instanceUrl (settings w)) (accessToken (settings w))
             (since (settings w)) [] 1 (fetch_start en w) = (r, w3)"
  shows "fetchArticles fuel en w =
           (case r of
              None \<Rightarrow> (None, w3)
            | Some (Inl e) \<Rightarrow> (Some (Inl e), w3)
            | Some (Inr articles) \<Rightarrow>
                (Some (Inr articles),
                 saveSettings (w3\<lparr>settings := (settings w3)
                    \<lparr>since := of_int (clock en (ticks w)) / 1000\<rparr>\<rparr>)))"
  using assms
  by (simp add: fetchArticles_def fetch_start_def date_now_def Let_def
           split: option.splits sum.splits)


lemma fetchArticles_ok:
  assumes "fetchArticles fuel en w = (Some (Inr articles), w2)"
  shows "since (saved w2) = of_int (clock en (ticks w)) / 1000
         \<and> since (settings w2) = of_int (clock en (ticks w)) / 1000
         \<and> vault w2 = vault w"
proof -
  obtain r w3 where l: "fetch_loop fuel en (instanceUrl (settings w)) (accessToken (settings w))
             (since (settings w)) [] 1 (fetch_start en w) = (r, w3)" by fastforce
  from fetch_loop_frame [OF l] have "vault w3 = vault w" by (simp add: fetch_start_def)
  with assms show ?thesis
    by (auto simp: fetchArticles_loop [OF l] split: option.splits sum.splits)
qed

lemma fetchArticles_not_ok:
  assumes "fetchArticles fuel en w = (r, w2)" "\<forall>articles. r \<noteq> Some (Inr articles)"
  shows "saved w2 = saved w \<and> settings w2 = settings w \<and> vault w2 = vault w"
proof -
  obtain r' w3 where l: "fetch_loop fuel en (instanceUrl (settings w)) (accessToken (settings w))
             (since (settings w)) [] 1 (fetch_start en w) = (r', w3)" by fastforce
  from fetch_loop_frame [OF l]
  have "vault w3 = vault w \<and> saved w3 = saved w \<and> settings w3 = settings w"
    by (simp add: fetch_start_def)
  with assms show ?thesis
    by (auto simp: fetchArticles_loop [OF l] split: option.splits sum.splits)
qed

lemma createOrUpdateArticleNote_frame:
  "createOrUpdateArticleNote en a folder w = (r, w') \<Longrightarrow>
     settings w' = settings w \<and> saved w' = saved w \<and> events w' = events w"
  by (auto simp: createOrUpdateArticleNote_def vault_create_def vault_modify_def Let_def
           split: option.splits vfile.splits if_splits)

lemma write_all_frame:
  "write_all en as folder w = (r, w') \<Longrightarrow>
     settings w' = settings w \<and> saved w' = saved w \<and> events w' = events w"
proof (induction as arbitrary: w)
  case Nil
  then show ?case by simp
next
  case (Cons a as)
  obtain r1 w1 where c: "createOrUpdateArticleNote en a folder w = (r1, w1)" by fastforce
  from createOrUpdateArticleNote_frame [OF c] Cons c show ?case
    by (cases r1) auto
qed

lemma ensureFolderExists_frame [simp]:
  "settings (ensureFolderExists f w) = settings w" "saved (ensureFolderExists f w) = saved w"
  "events (ensureFolderExists f w) = events w"
  by (simp_all add: ensureFolderExists_def)

section \<open>The outcomes of a run\<close>

lemma sync_auth_fail:
  "ensureTokenValid en w = (Inl e, w1) \<Longrightarrow>
   syncWallabagArticles fuel en w =
     (Some (), emit (Notice ''Sync failed. See console for details.'') (emit (ConsoleError e) w1))"
  by (simp add: syncWallabagArticles_def sync_try_def)

lemma sync_fetch_timeout:
  "ensureTokenValid en w = (Inr u, w1) \<Longrightarrow> fetchArticles fuel en w1 = (None, w2) \<Longrightarrow>
   syncWallabagArticles fuel en w = (None, w2)"
  by (simp add: syncWallabagArticles_def sync_try_def)

lemma sync_fetch_fail:
  "ensureTokenValid en w = (Inr u, w1) \<Longrightarrow> fetchArticles fuel en w1 = (Some (Inl e), w2) \<Longrightarrow>
   syncWallabagArticles fuel en w =
     (Some (), emit (Notice ''Sync failed. See console for details.'') (emit (ConsoleError e) w2))"
  by (simp add: syncWallabagArticles_def sync_try_def)

lemma sync_fetch_ok:
  assumes "ensureTokenValid en w = (Inr u, w1)"
      and "fetchArticles fuel en w1 = (Some (Inr articles), w2)"
  shows "fst (syncWallabagArticles fuel en w) = Some ()
         \<and> settings (snd (syncWallabagArticles fuel en w)) = settings w2
         \<and> saved (snd (syncWallabagArticles fuel en w)) = saved w2
         \<and> (\<exists>evs. events (snd (syncWallabagArticles fuel en w)) = events w2 @ evs
                \<and> (\<forall>req. HttpGet req \<notin> set evs))"
proof -
  let ?folder = "or_else (noteFolder (settings w2)) ''Wallabag''"
  obtain r w4 where wr: "write_all en articles ?folder (ensureFolderExists ?folder w2) = (r, w4)"
    by fastforce
  from write_all_frame [OF wr] have
    "settings w4 = settings w2" "saved w4 = saved w2" "events w4 = events w2" by simp_all
  with assms wr show ?thesis
    by (cases r) (simp_all add: syncWallabagArticles_def sync_try_def Let_def)
qed

text \<open>
  A run that starts with the watermark in memory equal to the persisted one ends with the
  two equal: every assignment to \<^verbatim>\<open>settings.since\<close> is followed by
  \<^verbatim>\<open>saveSettings\<close>.
\<close>

lemma sync_keeps_watermark_agreement:
  assumes "since (saved w) = since (settings w)"
  shows "since (saved (snd (syncWallabagArticles fuel en w)))
           = since (settings (snd (syncWallabagArticles fuel en w)))"
proof -
  obtain ra w1 where a: "ensureTokenValid en w = (ra, w1)" by fastforce
  obtain rf w2 where f: "fetchArticles fuel en w1 = (rf, w2)" by fastforce
  from ensureTokenValid_frame [of en w] a assms
  have w1: "since (saved w1) = since (settings w1)" by auto
  show ?thesis
  proof (cases ra)
    case (Inl e)
    with a w1 show ?thesis by (simp add: sync_auth_fail)
  next
    case (Inr u)
    show ?thesis
    proof (cases "\<exists>articles. rf = Some (Inr articles)")
      case True
      then obtain articles where rf: "rf = Some (Inr articles)" by blast
      from sync_fetch_ok [of en w u w1 fuel articles w2]
           fetchArticles_ok [of fuel en w1 articles w2] a f Inr rf
      show ?thesis by simp
    next
      case False
      with fetchArticles_not_ok [OF f]
      have same: "saved w2 = saved w1" "settings w2 = settings w1" by simp_all
      show ?thesis
      proof (cases rf)
        case None
        with a f Inr same w1 show ?thesis by (simp add: sync_fetch_timeout)
      next
        case (Some x)
        with False obtain e where "rf = Some (Inl e)" by (cases x) auto
        with a f Inr same w1 show ?thesis by (simp add: sync_fetch_fail)
      qed
    qed
  qed
qed

section \<open>The properties\<close>

subsection \<open>C1: when the watermark is committed\<close>




subsection \<open>C2: spaces in tag labels\<close>

text \<open>
  C2 asks for every space of a label to become a dash. \<^verbatim>\<open>t.label.replace(' ', '-')\<close>
  has a string as its pattern and so replaces the first space only, whereas the title is
  sanitized with a \<^verbatim>\<open>g\<close> expression. For the label \<^verbatim>\<open>to read later\<close> the tags
  field keeps the second space.
\<close>

theorem tags_only_first_space_replaced:
  "tags_line sample_article = ''to-read later, tech''
   \<and> articleToMarkdown htmlToMarkdown sample_article =
       ''---'' @ [CHR 0x0A] @
       ''url: https://example.org/post'' @ [CHR 0x0A] @
       ''tags: to-read later, tech'' @ [CHR 0x0A] @
       ''created_at: 2024-05-01T10:00:00+0000'' @ [CHR 0x0A] @
       ''wallabag id: 42'' @ [CHR 0x0A] @
       ''---'' @ [CHR 0x0A] @ [CHR 0x0A] @
       ''# A/B? Test'' @ [CHR 0x0A] @ [CHR 0x0A] @
       ''1 < 2'' @ [CHR 0x0A]"
  by code_simp

subsection \<open>C3: reconciliation is idempotent\<close>

text \<open>
  C3: for every article, folder and vault, writing the note a second time, with nothing
  changed in between, ends as the first time did and leaves the world as the first run left
  it. The path and the content are functions of the article and the folder alone, so both
  runs derive the same ones; when the first run succeeds, the note at that path holds the
  rendered content, and the second run overwrites it with the same text.
\<close>

theorem reconcile_idempotent:
  "snd (createOrUpdateArticleNote en a folder (snd (createOrUpdateArticleNote en a folder w)))
     = snd (createOrUpdateArticleNote en a folder w)
   \<and> fst (createOrUpdateArticleNote en a folder (snd (createOrUpdateArticleNote en a folder w)))
     = fst (createOrUpdateArticleNote en a folder w)
   \<and> (fst (createOrUpdateArticleNote en a folder w) = Inr () \<longrightarrow>
        vault (snd (createOrUpdateArticleNote en a folder w)) (filePath a folder)
          = Some (TFile (articleToMarkdown (turndown en) a)))"
  by (auto simp: createOrUpdateArticleNote_def vault_create_def vault_modify_def Let_def
           split: option.splits vfile.splits if_splits)

theorem reconcile_idempotent_witness:
  "fst (createOrUpdateArticleNote one_page_env sample_article ''Wallabag'' sample_world) = Inr ()
   \<and> filePath sample_article ''Wallabag'' = ''Wallabag/A-B- Test.md''
   \<and> vault (snd (createOrUpdateArticleNote one_page_env sample_article ''Wallabag'' sample_world))
        ''Wallabag/A-B- Test.md''
       = Some (TFile (articleToMarkdown htmlToMarkdown sample_article))
   \<and> snd (createOrUpdateArticleNote one_page_env sample_article ''Wallabag''
            (snd (createOrUpdateArticleNote one_page_env sample_article ''Wallabag'' sample_world)))
       = snd (createOrUpdateArticleNote one_page_env sample_article ''Wallabag'' sample_world)"
proof -
  have h: "fst (createOrUpdateArticleNote one_page_env sample_article ''Wallabag'' sample_world)
             = Inr ()"
    by code_simp
  have p: "filePath sample_article ''Wallabag'' = ''Wallabag/A-B- Test.md''" by code_simp
  have t: "turndown one_page_env = htmlToMarkdown" by (simp add: one_page_env_def)
  from reconcile_idempotent [of one_page_env sample_article "''Wallabag''" sample_world] h p t
  show ?thesis by simp
qed

subsection \<open>C4: when the token is renewed\<close>

text \<open>
  C4, as stated, fails at the margin itself. In the world below a token is held and its
  expiry is exactly 60 seconds after the current time, which is within 60 seconds of it;
  \<^verbatim>\<open>Date.now() > tokenExpiry - 60 * 1000\<close> is false there, and
  \<^verbatim>\<open>ensureTokenValid\<close> returns without a notice, a request or any other sign of
  authentication.
\<close>

theorem no_authentication_at_exactly_60_seconds:
  "truthy (accessToken (settings boundary_world))
   \<and> tokenExpiry (settings boundary_world) - clock one_page_env (ticks boundary_world)
       = 60 * 1000
   \<and> fst (ensureTokenValid one_page_env boundary_world) = Inr ()
   \<and> new_events boundary_world (snd (ensureTokenValid one_page_env boundary_world)) = []"
  by code_simp

text \<open>
  C4, amended: \<^verbatim>\<open>ensureTokenValid\<close> starts authentication (whose first act on either
  path is one of its two notices) if and only if no access token is held or the expiry is
  less than 60 seconds after the current time, an expired token included; with exactly 60
  seconds left it does not. With a token held and the expiry 120 seconds away it returns at
  once.
\<close>

theorem ensureTokenValid_authenticates_iff:
  "((\<exists>e \<in> set (new_events w (snd (ensureTokenValid en w))). auth_notice e)
      \<longleftrightarrow> (\<not> truthy (accessToken (settings w))
           \<or> tokenExpiry (settings w) - clock en (ticks w) < 60 * 1000))
   \<and> (truthy (accessToken (settings w))
        \<and> tokenExpiry (settings w) = clock en (ticks w) + 120 * 1000
      \<longrightarrow> ensureTokenValid en w = (Inr (), w\<lparr>ticks := Suc (ticks w)\<rparr>))"
proof -
  have iff: "(\<exists>e \<in> set (new_events w (snd (ensureTokenValid en w))). auth_notice e)
      \<longleftrightarrow> (\<not> truthy (accessToken (settings w))
           \<or> tokenExpiry (settings w) - clock en (ticks w) < 60 * 1000)"
  proof (cases "\<not> truthy (accessToken (settings w))
          \<or> tokenExpiry (settings w) - clock en (ticks w) < 60 * 1000")
    case True
    have "\<exists>w0. ensureTokenValid en w = authenticate en w0 \<and> events w0 = events w"
    proof (cases "truthy (accessToken (settings w))")
      case False
      then show ?thesis by (intro exI [of _ w]) (simp add: ensureTokenValid_cases)
    next
      case held: True
      with True show ?thesis
        by (intro exI [of _ "snd (date_now en w)"]) (simp add: ensureTokenValid_cases)
    qed
    then obtain w0 where e: "ensureTokenValid en w = authenticate en w0"
      and ev: "events w0 = events w"
      by blast
    from authenticate_events [of en w0] ev obtain evs where
      "events (snd (authenticate en w0)) = events w @ evs" "\<exists>e\<in>set evs. auth_notice e"
      by (auto simp: auth_notice_def)
    then show ?thesis using True e by (simp add: new_events_append)
  next
    case False
    then have "new_events w (snd (ensureTokenValid en w)) = []"
      by (simp add: ensureTokenValid_cases new_events_def)
    then show ?thesis using False by simp
  qed
  have far: "ensureTokenValid en w = (Inr (), w\<lparr>ticks := Suc (ticks w)\<rparr>)"
    if "truthy (accessToken (settings w))"
       "tokenExpiry (settings w) = clock en (ticks w) + 120 * 1000"
    using that by (simp add: ensureTokenValid_cases date_now_def)
  from iff far show ?thesis by blast
qed

theorem ensureTokenValid_authenticates_iff_witness:
  "truthy (accessToken (settings sample_world))
   \<and> tokenExpiry (settings sample_world) = clock one_page_env (ticks sample_world) + 120 * 1000
   \<and> ensureTokenValid one_page_env sample_world
        = (Inr (), sample_world\<lparr>ticks := Suc (ticks sample_world)\<rparr>)
   \<and> \<not> (\<exists>e \<in> set (new_events sample_world (snd (ensureTokenValid one_page_env sample_world))).
          auth_notice e)"
proof -
  have h1: "truthy (accessToken (settings sample_world))" by code_simp
  have h2: "tokenExpiry (settings sample_world)
              = clock one_page_env (ticks sample_world) + 120 * 1000" by code_simp
  have h3: "\<not> (\<not> truthy (accessToken (settings sample_world))
               \<or> tokenExpiry (settings sample_world) - clock one_page_env (ticks sample_world)
                   < 60 * 1000)" by code_simp
  from ensureTokenValid_authenticates_iff [of sample_world one_page_env] h1 h2 h3
  show ?thesis by blast
qed

subsection \<open>C5: a failed page aborts the run\<close>

text \<open>
  C5, as stated, fails for the persisted watermark. In the run below the token has expired
  and the watermark in memory (7) differs from the persisted one (5). The run authenticates
  again, and \<^verbatim>\<open>authenticate\<close> saves the whole settings object, the watermark in
  memory with it; then page 2 is answered with an error and the run ends in the
  \<^verbatim>\<open>catch\<close>. The persisted watermark is 7 after the run and was 5 before.
\<close>

theorem persisted_watermark_rewritten_by_authentication:
  "HttpGet (page_request (Some ''https://app.wallabag.it'') (Some ''tok2'') 7 2 True)
       \<in> set (new_events stale_world (snd (syncWallabagArticles 5 failing_env stale_world)))
   \<and> entries_endpoint failing_env
        (page_request (Some ''https://app.wallabag.it'') (Some ''tok2'') 7 2 True)
       = Response False ''Internal Server Error'' None
   \<and> fst (syncWallabagArticles 5 failing_env stale_world) = Some ()
   \<and> since (saved stale_world) = 5
   \<and> since (saved (snd (syncWallabagArticles 5 failing_env stale_world))) = 7"
  by code_simp

text \<open>
  C5, amended: if some page request of a run is answered with a response that is not ok,
  then the run ends in the \<^verbatim>\<open>catch\<close> with the error made from that response, no
  note is written (the articles of the earlier pages are dropped with the thrown loop), and
  the watermark in memory is what it was before the run. The persisted watermark is then
  either what it was before the run or the value that was in memory (which a
  re-authentication in the same run saves); it is what it was before the run whenever the
  run started with the watermark in memory equal to the persisted one.
\<close>

theorem failed_page_aborts_sync:
  assumes bad: "HttpGet req \<in> set (new_events w (snd (syncWallabagArticles fuel en w)))"
      and resp: "entries_endpoint en req = Response False tx json"
  shows "fst (syncWallabagArticles fuel en w) = Some ()
         \<and> ConsoleError (Error (''Failed to fetch articles: '' @ tx))
              \<in> set (new_events w (snd (syncWallabagArticles fuel en w)))
         \<and> vault (snd (syncWallabagArticles fuel en w)) = vault w
         \<and> since (settings (snd (syncWallabagArticles fuel en w))) = since (settings w)
         \<and> (since (saved (snd (syncWallabagArticles fuel en w))) = since (saved w)
              \<or> since (saved (snd (syncWallabagArticles fuel en w))) = since (settings w))
         \<and> (since (saved w) = since (settings w) \<longrightarrow>
               since (saved (snd (syncWallabagArticles fuel en w))) = since (saved w))"
proof -
  obtain ra w1 where a: "ensureTokenValid en w = (ra, w1)" by fastforce
  from ensureTokenValid_events [of en w] a obtain evA where
    evA: "events w1 = events w @ evA" "\<forall>rq. HttpGet rq \<notin> set evA" by auto
  from ensureTokenValid_frame [of en w] a have
    w1: "vault w1 = vault w" "since (settings w1) = since (settings w)"
        "since (saved w1) = since (saved w) \<or> since (saved w1) = since (settings w)"
    by auto
  have ra: "\<exists>u. ra = Inr u"
  proof (cases ra)
    case (Inl e)
    with a evA have "new_events w (snd (syncWallabagArticles fuel en w))
        = evA @ [ConsoleError e, Notice ''Sync failed. See console for details.'']"
      by (simp add: sync_auth_fail new_events_def)
    with bad evA show ?thesis by auto
  qed simp
  then obtain u where a': "ensureTokenValid en w = (Inr u, w1)" using a by blast
  obtain r w3 where l: "fetch_loop fuel en (instanceUrl (settings w1)) (accessToken (settings w1))
             (since (settings w1)) [] 1 (fetch_start en w1) = (r, w3)" by fastforce
  from fetch_loop_events [OF l] obtain gets where
    gets: "events w3 = events (fetch_start en w1) @ gets" by blast
  then have ng: "new_events (fetch_start en w1) w3 = gets" by (simp add: new_events_def)
  have ev3: "events w3 = events w @ evA @ [Notice ''Fetching Wallabag articles...''] @ gets"
    using gets evA by (simp add: fetch_start_def)
  from fetch_loop_frame [OF l]
  have fr: "settings w3 = settings w1" "saved w3 = saved w1" "vault w3 = vault w1"
    by (simp_all add: fetch_start_def)
  have in_gets: "HttpGet req \<in> set gets"
  proof (cases r)
    case None
    then have "syncWallabagArticles fuel en w = (None, w3)"
      using a' l by (simp add: sync_fetch_timeout fetchArticles_loop)
    with bad ev3 evA show ?thesis by (auto simp: new_events_def)
  next
    case (Some x)
    show ?thesis
    proof (cases x)
      case (Inl e)
      with Some have "syncWallabagArticles fuel en w =
          (Some (), emit (Notice ''Sync failed. See console for details.'')
                      (emit (ConsoleError e) w3))"
        using a' l by (simp add: sync_fetch_fail fetchArticles_loop)
      with bad ev3 evA show ?thesis by (auto simp: new_events_def)
    next
      case (Inr articles)
      let ?w2 = "saveSettings (w3\<lparr>settings := (settings w3)
                    \<lparr>since := of_int (clock en (ticks w1)) / 1000\<rparr>\<rparr>)"
      from Inr Some l have f: "fetchArticles fuel en w1 = (Some (Inr articles), ?w2)"
        by (simp add: fetchArticles_loop)
      from sync_fetch_ok [OF a' f] obtain evs where
        "events (snd (syncWallabagArticles fuel en w)) = events ?w2 @ evs"
        "\<forall>rq. HttpGet rq \<notin> set evs"
        by blast
      with bad ev3 evA show ?thesis by (auto simp: new_events_def)
    qed
  qed
  with ng have "HttpGet req \<in> set (new_events (fetch_start en w1) w3)" by simp
  from fetch_loop_bad [OF l this resp]
  have r: "r = Some (Inl (Error (''Failed to fetch articles: '' @ tx)))" .
  with l a' have s: "syncWallabagArticles fuel en w =
          (Some (), emit (Notice ''Sync failed. See console for details.'')
                      (emit (ConsoleError (Error (''Failed to fetch articles: '' @ tx))) w3))"
    by (simp add: sync_fetch_fail fetchArticles_loop)
  have "fst (syncWallabagArticles fuel en w) = Some ()
        \<and> ConsoleError (Error (''Failed to fetch articles: '' @ tx))
              \<in> set (new_events w (snd (syncWallabagArticles fuel en w)))
        \<and> vault (snd (syncWallabagArticles fuel en w)) = vault w
        \<and> since (settings (snd (syncWallabagArticles fuel en w))) = since (settings w)"
    using ev3 fr w1(1,2) by (simp add: s new_events_def)
  moreover have "saved (snd (syncWallabagArticles fuel en w)) = saved w1"
    using fr by (simp add: s)
  ultimately show ?thesis using w1(3) by auto
qed

theorem failed_page_aborts_sync_witness:
  "since (saved sample_world) = since (settings sample_world)
   \<and> HttpGet (page_request (Some ''https://app.wallabag.it'') (Some ''tok'') 0 2 True)
       \<in> set (new_events sample_world (snd (syncWallabagArticles 5 failing_env sample_world)))
   \<and> entries_endpoint failing_env
        (page_request (Some ''https://app.wallabag.it'') (Some ''tok'') 0 2 True)
       = Response False ''Internal Server Error'' None
   \<and> fst (syncWallabagArticles 5 failing_env sample_world) = Some ()
   \<and> ConsoleError (Error ''Failed to fetch articles: Internal Server Error'')
       \<in> set (new_events sample_world (snd (syncWallabagArticles 5 failing_env sample_world)))
   \<and> vault (snd (syncWallabagArticles 5 failing_env sample_world)) = vault sample_world
   \<and> since (saved (snd (syncWallabagArticles 5 failing_env sample_world))) = 0"
proof -
  have h1: "since (saved sample_world) = since (settings sample_world)" by code_simp
  have h2: "HttpGet (page_request (Some ''https://app.wallabag.it'') (Some ''tok'') 0 2 True)
       \<in> set (new_events sample_world (snd (syncWallabagArticles 5 failing_env sample_world)))"
    by code_simp
  have h3: "entries_endpoint failing_env
        (page_request (Some ''https://app.wallabag.it'') (Some ''tok'') 0 2 True)
       = Response False ''Internal Server Error'' None"
    by code_simp
  have z: "since (saved sample_world) = 0" by code_simp
  from failed_page_aborts_sync [OF h2 h3] h1 h2 h3 z show ?thesis by simp
qed

subsection \<open>C6: the sanitized title and the path of the note\<close>



subsection \<open>C7: the parameters of every page request\<close>



subsection \<open>C8: a first page without a next link\<close>

text \<open>
  C8: if the response to the request for page 1 is ok and has no next link, then with any
  fuel of at least one round \<^verbatim>\<open>fetchArticles\<close> returns exactly the items of that page,
  and what it records is its notice and that one request. When the page has no items the
  result is the empty list, not an error.
\<close>

theorem single_page_fetch:
  assumes "entries_endpoint en
             (page_request (instanceUrl (settings w)) (accessToken (settings w))
                (since (settings w)) 1 (onlyStarred (settings w)))
           = Response True tx (Some data)"
      and "\<not> links_next data"
  shows "fst (fetchArticles (Suc fuel) en w) = Some (Inr (items_of data))
         \<and> new_events w (snd (fetchArticles (Suc fuel) en w)) =
             [Notice ''Fetching Wallabag articles...'',
              HttpGet (page_request (instanceUrl (settings w)) (accessToken (settings w))
                         (since (settings w)) 1 (onlyStarred (settings w)))]
         \<and> (embedded_items data = Some [] \<longrightarrow>
               fst (fetchArticles (Suc fuel) en w) = Some (Inr []))"
proof -
  let ?req = "page_request (instanceUrl (settings w)) (accessToken (settings w))
                (since (settings w)) 1 (onlyStarred (settings w))"
  have s: "settings (fetch_start en w) = settings w" by (simp add: fetch_start_def)
  have l: "fetch_loop (Suc fuel) en (instanceUrl (settings w)) (accessToken (settings w))
             (since (settings w)) [] 1 (fetch_start en w)
           = (Some (Inr (items_of data)), emit (HttpGet ?req) (fetch_start en w))"
    using assms by (simp add: s Let_def)
  have r: "fst (fetchArticles (Suc fuel) en w) = Some (Inr (items_of data))"
    by (simp add: fetchArticles_loop [OF l])
  have "events (snd (fetchArticles (Suc fuel) en w)) =
          events w @ [Notice ''Fetching Wallabag articles...'', HttpGet ?req]"
    by (simp add: fetchArticles_loop [OF l] fetch_start_def)
  then have e: "new_events w (snd (fetchArticles (Suc fuel) en w)) =
          [Notice ''Fetching Wallabag articles...'', HttpGet ?req]"
    by (rule new_events_append)
  from r e show ?thesis by (simp add: items_of_def)
qed

theorem single_page_fetch_witness:
  "entries_endpoint one_page_env
     (page_request (instanceUrl (settings sample_world)) (accessToken (settings sample_world))
        (since (settings sample_world)) 1 (onlyStarred (settings sample_world)))
     = Response True [] (Some \<lparr>embedded_items = Some [sample_article], links_next = False\<rparr>)
   \<and> fst (fetchArticles (Suc 0) one_page_env sample_world) = Some (Inr [sample_article])
   \<and> new_events sample_world (snd (fetchArticles (Suc 0) one_page_env sample_world)) =
       [Notice ''Fetching Wallabag articles...'',
        HttpGet (page_request (instanceUrl (settings sample_world))
                   (accessToken (settings sample_world))
                   (since (settings sample_world)) 1 (onlyStarred (settings sample_world)))]"
proof -
  have h1: "entries_endpoint one_page_env
     (page_request (instanceUrl (settings sample_world)) (accessToken (settings sample_world))
        (since (settings sample_world)) 1 (onlyStarred (settings sample_world)))
     = Response True [] (Some \<lparr>embedded_items = Some [sample_article], links_next = False\<rparr>)"
    by (simp add: one_page_env_def)
  have h2: "\<not> links_next \<lparr>embedded_items = Some [sample_article], links_next = False\<rparr>"
    by simp
  from single_page_fetch [OF h1 h2, of 0] h1 show ?thesis by (simp add: items_of_def)
qed

subsection \<open>C9: credentials are checked before anything is sent\<close>

text \<open>
  C9: if any of the five credential fields is empty (or was never set),
  \<^verbatim>\<open>authenticate\<close> throws \<^verbatim>\<open>Missing credentials\<close>; all it has done by then is to show
  its notice, so nothing was sent and the settings, in memory and persisted, are unchanged.
  The POST to the token endpoint is issued if and only if all five fields are non-empty.
\<close>

theorem authenticate_requires_credentials:
  "(\<not> truthy (instanceUrl (settings w)) \<or> \<not> truthy (clientId (settings w))
      \<or> \<not> truthy (clientSecret (settings w)) \<or> \<not> truthy (username (settings w))
      \<or> \<not> truthy (password (settings w))
    \<longrightarrow> fst (authenticate en w) = Inl (Error ''Missing credentials'')
        \<and> new_events w (snd (authenticate en w))
            = [Notice ''Please fill in all Wallabag credentials in the settings.'']
        \<and> settings (snd (authenticate en w)) = settings w
        \<and> saved (snd (authenticate en w)) = saved w)
   \<and> ((\<exists>req. HttpPost req \<in> set (new_events w (snd (authenticate en w))))
        \<longleftrightarrow> truthy (instanceUrl (settings w)) \<and> truthy (clientId (settings w))
            \<and> truthy (clientSecret (settings w)) \<and> truthy (username (settings w))
            \<and> truthy (password (settings w)))"
  by (auto simp: authenticate_def Let_def split_beta new_events_def
           split: response.splits option.splits)

theorem authenticate_requires_credentials_witness:
  "\<not> truthy (password (settings no_password_world))
   \<and> authenticate one_page_env no_password_world
       = (Inl (Error ''Missing credentials''),
          no_password_world
            \<lparr>events := [Notice ''Please fill in all Wallabag credentials in the settings.'']\<rparr>)
   \<and> \<not> (\<exists>req. HttpPost req \<in> set (new_events no_password_world
                                        (snd (authenticate one_page_env no_password_world))))"
proof -
  have h: "\<not> truthy (password (settings no_password_world))" by code_simp
  have a: "authenticate one_page_env no_password_world
       = (Inl (Error ''Missing credentials''),
          no_password_world
            \<lparr>events := [Notice ''Please fill in all Wallabag credentials in the settings.'']\<rparr>)"
    using h
    by (simp add: authenticate_def emit_def no_password_world_def sample_world_def)
  from authenticate_requires_credentials [of no_password_world one_page_env] h a
  show ?thesis by blast
qed

subsection \<open>C10: a doubly escaped less-than sign\<close>




end
